theory Spec2Isabelle
  imports Main
begin

section \<open>Values shared by the request pipeline\<close>

subsection \<open>Header names\<close>

text \<open>
  Modelled from the spec: the table \<open>Constants.HttpHeaders\<close> lives in \<open>../common\<close>, which is
  not part of the sources at hand. The spec calls the keys of a headers map "a fixed, known
  vocabulary"; each member of the table that \<open>request.ts\<close> mentions is a constructor here, so
  the members are pairwise distinct names. \<open>OtherHeader s\<close> is a key \<open>s\<close> that is none of them
  (a headers object is an ordinary string-keyed object and may hold any key).
\<close>

datatype header_name =
    ALLOW_MULTIPLE_WRITES | Continuation | PreTriggerInclude | PostTriggerInclude
  | OfferType | OfferThroughput | PageSize | IfMatch | IfNoneMatch | A_IM
  | IndexingDirective | ConsistencyLevel | ResourceTokenExpiry | SessionToken
  | EnableScanInQuery | EnableCrossPartitionQuery | PopulateQuotaInfo
  | PopulateQueryMetrics | ParallelizeCrossPartitionQuery | PartitionKey | XDate
  | ContentType | Accept | PartitionKeyRangeID | EnableScriptLogging
  | OfferIsRUPerMinuteThroughputEnabled | DisableRUPerMinuteUsage | Authorization
  | ActivityId | SubStatus | RetryAfterInMilliseconds
  | OtherHeader string

subsection \<open>JSON values and \<open>JSON.stringify\<close>\<close>

text \<open>
  A parsed body is a JSON value. Strings are lists of 8-bit characters, standing for the
  code units below 256; numbers are restricted to the integers, which is all that the
  headers and bodies discussed below need.
\<close>

datatype json =
    JNull | JBool bool | JNum int | JStr string
  | JArr "json list" | JObj "(string \<times> json) list"

definition hexDigit :: "nat \<Rightarrow> char" where
  "hexDigit n = ''0123456789abcdef'' ! (n mod 16)"

function digits10 :: "nat \<Rightarrow> string" where
  "digits10 n = (if n < 10 then [hexDigit n] else digits10 (n div 10) @ [hexDigit (n mod 10)])"
  by pat_completeness auto
termination
  by (relation "measure id") auto

definition showInt :: "int \<Rightarrow> string" where
  "showInt i = (if i < 0 then ''-'' @ digits10 (nat (- i)) else digits10 (nat i))"

text \<open>The escape \<open>\uXXXX\<close> of a code unit, four lower-case hexadecimal digits.\<close>

definition unicodeEscape :: "nat \<Rightarrow> string" where
  "unicodeEscape n =
     [CHR 0x5C, CHR ''u'', hexDigit (n div 4096), hexDigit (n div 256), hexDigit (n div 16), hexDigit n]"

text \<open>
  How \<open>JSON.stringify\<close> writes one character of a string: the double quote and the
  backslash are escaped, the control characters get their short or their \<open>\u\<close> form,
  everything else is kept.
\<close>

definition quoteChar :: "char \<Rightarrow> string" where
  "quoteChar c =
     (let n = (of_char c :: nat) in
      if n = 0x22 then [CHR 0x5C, CHR 0x22]
      else if n = 0x5C then [CHR 0x5C, CHR 0x5C]
      else if n = 0x08 then [CHR 0x5C, CHR ''b'']
      else if n = 0x09 then [CHR 0x5C, CHR ''t'']
      else if n = 0x0A then [CHR 0x5C, CHR ''n'']
      else if n = 0x0C then [CHR 0x5C, CHR ''f'']
      else if n = 0x0D then [CHR 0x5C, CHR ''r'']
      else if n < 0x20 then unicodeEscape n
      else [c])"

definition quoteString :: "string \<Rightarrow> string" where
  "quoteString s = [CHR 0x22] @ concat (map quoteChar s) @ [CHR 0x22]"

fun join :: "string \<Rightarrow> string list \<Rightarrow> string" where
  "join sep [] = []"
| "join sep [x] = x"
| "join sep (x # y # ys) = x @ sep @ join sep (y # ys)"

fun stringify :: "json \<Rightarrow> string" where
  "stringify JNull = ''null''"
| "stringify (JBool b) = (if b then ''true'' else ''false'')"
| "stringify (JNum i) = showInt i"
| "stringify (JStr s) = quoteString s"
| "stringify (JArr xs) = ''['' @ join '','' (map stringify xs) @ '']''"
| "stringify (JObj ps) =
     ''{'' @ join '','' (map (\<lambda>(k, v). quoteString k @ '':'' @ stringify v) ps) @ ''}''"

subsection \<open>\<open>parseInt(s, 10)\<close>\<close>

text \<open>
  The result of \<open>parseInt\<close> is a number or \<open>NaN\<close>. Leading white space is skipped, one sign
  is accepted, then the longest run of decimal digits is read; with no digit the result
  is \<open>NaN\<close>. (The integer is kept exact here; the runtime rounds it to a double above
  \<open>2^53\<close>.)
\<close>

datatype js_num = NaN | Num int

definition isWhiteSpace :: "char \<Rightarrow> bool" where
  "isWhiteSpace c = ((of_char c :: nat) \<in> {0x09, 0x0A, 0x0B, 0x0C, 0x0D, 0x20, 0xA0})"

definition isDigit :: "char \<Rightarrow> bool" where
  "isDigit c = (0x30 \<le> (of_char c :: nat) \<and> (of_char c :: nat) \<le> 0x39)"

definition digitsValue :: "string \<Rightarrow> int" where
  "digitsValue ds = foldl (\<lambda>acc c. 10 * acc + (int (of_char c) - 0x30)) 0 ds"

definition parseInt :: "string \<Rightarrow> js_num" where
  "parseInt s =
     (let t = dropWhile isWhiteSpace s;
          neg = (t \<noteq> [] \<and> hd t = CHR ''-'');
          u = (if t \<noteq> [] \<and> (hd t = CHR ''-'' \<or> hd t = CHR ''+'') then tl t else t);
          ds = takeWhile isDigit u
      in if ds = [] then NaN
         else Num (if neg then - digitsValue ds else digitsValue ds))"

section \<open>One transport attempt: \<open>request\<close> (request.ts, lines 182 to 265)\<close>

subsection \<open>Errors, responses, envelopes\<close>

record js_error =
  err_name :: string
  err_message :: string

text \<open>
  A response of the transport: its status, its headers as the iterator of the response
  yields them, and what awaiting \<open>response.json()\<close> does, which is to return the parsed
  body or to throw.
\<close>

record response =
  status :: nat
  rheaders :: "(header_name \<times> string) list"
  json :: "js_error + json"

record ErrorResponse =
  code :: nat
  body :: string
  headers :: "header_name \<rightharpoonup> string"
  activityId :: "string option"
  substatus :: "js_num option"
  retryAfterInMilliseconds :: "js_num option"

record ResponseEnvelope =
  res_headers :: "header_name \<rightharpoonup> string"
  result :: json
  statusCode :: nat

text \<open>
  What a call can raise: an error thrown elsewhere and passed on as it is, a new
  \<open>TimeoutError\<close>, or the rejection with an error envelope.
\<close>

datatype failure = Thrown js_error | TimeoutError | Rejected ErrorResponse

subsection \<open>Timer, abort controller and the user's signal\<close>

datatype timer = Pending | Fired | Cleared

record ConnectionPolicy =
  requestTimeout :: nat

text \<open>
  The state one call works on: the handle of \<open>setTimeout\<close>, the \<open>aborted\<close> flag of the
  controller's signal, the \<open>aborted\<close> flag of the user's signal (\<open>None\<close> when the caller
  passed no signal), whether the forwarding listener is attached to the user's signal, and
  a count of the calls of \<open>fetch\<close>.
\<close>

record request_state =
  timeout :: timer
  delay :: nat
  controllerAborted :: bool
  userAborted :: "bool option"
  listening :: bool
  fetches :: nat

definition clearTimeout :: "request_state \<Rightarrow> request_state" where
  "clearTimeout s = s\<lparr>timeout := (case timeout s of Pending \<Rightarrow> Cleared | t \<Rightarrow> t)\<rparr>"

definition abort :: "request_state \<Rightarrow> request_state" where
  "abort s = s\<lparr>controllerAborted := True\<rparr>"

text \<open>Lines 188 to 193: a new controller, and the timer that will abort it.\<close>

definition start :: "ConnectionPolicy \<Rightarrow> bool option \<Rightarrow> request_state" where
  "start connectionPolicy userSignal =
     \<lparr>timeout = Pending, delay = requestTimeout connectionPolicy, controllerAborted = False,
      userAborted = userSignal, listening = False, fetches = 0\<rparr>"

text \<open>Lines 196 to 204: an aborted user signal aborts at once, a live one gets a listener.\<close>

definition wrapUserSignal :: "request_state \<Rightarrow> request_state" where
  "wrapUserSignal s =
     (case userAborted s of
        None \<Rightarrow> s
      | Some True \<Rightarrow> abort s
      | Some False \<Rightarrow> s\<lparr>listening := True\<rparr>)"

subsection \<open>The transport\<close>

text \<open>
  What happens while the call waits for \<open>fetch\<close> is an input: whether the timer's callback
  runs, whether the user's signal fires, and how the exchange would end if nothing aborts it.
\<close>

record world =
  timer_fires :: bool
  user_fires :: bool
  network :: "js_error + response"

definition AbortError :: js_error where
  "AbortError = \<lparr>err_name = ''AbortError'', err_message = ''The user aborted a request.''\<rparr>"

text \<open>The timer's callback (line 192) and the listener on the user's signal (line 201).\<close>

definition timerCallback :: "request_state \<Rightarrow> request_state" where
  "timerCallback s = (if timeout s = Pending then abort (s\<lparr>timeout := Fired\<rparr>) else s)"

definition userAbortEvent :: "request_state \<Rightarrow> request_state" where
  "userAbortEvent s =
     (case userAborted s of
        Some False \<Rightarrow>
          (let s' = s\<lparr>userAborted := Some True\<rparr> in if listening s' then abort s' else s')
      | _ \<Rightarrow> s)"

text \<open>
  \<open>fetch\<close> with the controller's signal (lines 210 to 216). The library rejects with its
  \<open>AbortError\<close> when the signal is aborted already or becomes aborted while the exchange is
  pending; otherwise the exchange ends as the network decides.
\<close>

definition fetch :: "world \<Rightarrow> request_state \<Rightarrow> request_state \<times> (js_error + response)" where
  "fetch w s =
     (let s1 = s\<lparr>fetches := fetches s + 1\<rparr> in
      if controllerAborted s1 then (s1, Inl AbortError)
      else
        (let s2 = (if timer_fires w then timerCallback s1 else s1);
             s3 = (if user_fires w then userAbortEvent s2 else s2)
         in if controllerAborted s3 then (s3, Inl AbortError) else (s3, network w)))"

subsection \<open>Classifying the response\<close>

text \<open>Lines 233 to 236: the response headers are copied into a plain object, key by key.\<close>

definition materialize :: "(header_name \<times> string) list \<Rightarrow> (header_name \<rightharpoonup> string)" where
  "materialize hs = foldl (\<lambda>h (key, v). h(key \<mapsto> v)) Map.empty hs"

text \<open>Lines 239 to 256: the error envelope of a response with status 400 or more.\<close>

definition errorResponse :: "nat \<Rightarrow> json \<Rightarrow> (header_name \<rightharpoonup> string) \<Rightarrow> ErrorResponse" where
  "errorResponse st res hdrs =
     (let e0 = \<lparr>code = st, body = stringify res, headers = hdrs,
                activityId = None, substatus = None, retryAfterInMilliseconds = None\<rparr>;
          e1 = (case hdrs ActivityId of None \<Rightarrow> e0 | Some v \<Rightarrow> e0\<lparr>activityId := Some v\<rparr>);
          e2 = (case hdrs SubStatus of None \<Rightarrow> e1
                | Some v \<Rightarrow> e1\<lparr>substatus := Some (parseInt v)\<rparr>);
          e3 = (case hdrs RetryAfterInMilliseconds of None \<Rightarrow> e2
                | Some v \<Rightarrow> e2\<lparr>retryAfterInMilliseconds := Some (parseInt v)\<rparr>)
      in e3)"

text \<open>Lines 229 to 264: everything after the \<open>try\<close> statement.\<close>

definition afterFetch ::
  "request_state \<Rightarrow> response \<Rightarrow> request_state \<times> (failure + ResponseEnvelope)" where
  "afterFetch s r =
     (let s' = clearTimeout s;
          parsed = (if status r = 204 \<or> status r = 304 then Inr JNull else json r)
      in case parsed of
           Inl e \<Rightarrow> (s', Inl (Thrown e))
         | Inr res \<Rightarrow>
             (let hdrs = materialize (rheaders r) in
              if status r \<ge> 400 then (s', Inl (Rejected (errorResponse (status r) res hdrs)))
              else (s', Inr \<lparr>res_headers = hdrs, result = res, statusCode = status r\<rparr>)))"

text \<open>Lines 217 to 227: the \<open>catch\<close> clause.\<close>

definition catchFetch ::
  "request_state \<Rightarrow> js_error \<Rightarrow> request_state \<times> (failure + ResponseEnvelope)" where
  "catchFetch s error =
     (if err_name error = ''AbortError'' then
        (if userAborted s = Some True then (clearTimeout s, Inl (Thrown error))
         else (s, Inl TimeoutError))
      else (s, Inl (Thrown error)))"

definition request ::
  "ConnectionPolicy \<Rightarrow> bool option \<Rightarrow> world \<Rightarrow> request_state \<times> (failure + ResponseEnvelope)" where
  "request connectionPolicy userSignal w =
     (case fetch w (wrapUserSignal (start connectionPolicy userSignal)) of
        (s, Inl error) \<Rightarrow> catchFetch s error
      | (s, Inr r) \<Rightarrow> afterFetch s r)"

text \<open>Which of the two envelopes an attempt produced, if any.\<close>

definition isErrorEnvelope :: "failure + ResponseEnvelope \<Rightarrow> bool" where
  "isErrorEnvelope out = (case out of Inl (Rejected _) \<Rightarrow> True | _ \<Rightarrow> False)"

definition isSuccessEnvelope :: "failure + ResponseEnvelope \<Rightarrow> bool" where
  "isSuccessEnvelope out = (case out of Inr _ \<Rightarrow> True | _ \<Rightarrow> False)"

section \<open>Building the request headers: \<open>getHeaders\<close> (request.ts, lines 33 to 180)\<close>

subsection \<open>Header values and options\<close>

text \<open>A header value is a string, a number or a boolean; \<open>truthy\<close> is the test that
  \<open>if (v)\<close> and \<open>!v\<close> apply to it, an absent entry being \<open>undefined\<close>.\<close>

datatype header_value = HString string | HNumber int | HBoolean bool

type_synonym CosmosHeaders = "header_name \<rightharpoonup> header_value"

fun truthy :: "header_value option \<Rightarrow> bool" where
  "truthy None = False"
| "truthy (Some (HString s)) = (s \<noteq> [])"
| "truthy (Some (HNumber n)) = (n \<noteq> 0)"
| "truthy (Some (HBoolean b)) = b"

datatype HTTPMethod = Get | Post | Put | Delete

text \<open>
  The options object, read as \<open>RequestOptions & FeedOptions\<close>. The two interfaces are
  declared outside the sources at hand; the fields are those \<open>getHeaders\<close> reads, with the
  types its uses of them show. \<open>None\<close> is an absent field.
\<close>

datatype trigger_include = TriggerName string | TriggerNames "string list"

datatype partition_key = PKNull | PKString string | PKArray "string list"

record AccessCondition =
  ac_type :: string
  condition :: string

record Options =
  continuation :: "string option"
  preTriggerInclude :: "trigger_include option"
  postTriggerInclude :: "trigger_include option"
  offerType :: "string option"
  offerThroughput :: "int option"
  maxItemCount :: "int option"
  accessCondition :: "AccessCondition option"
  useIncrementalFeed :: "bool option"
  indexingDirective :: "string option"
  consistencyLevel :: "string option"
  resourceTokenExpirySeconds :: "int option"
  sessionToken :: "string option"
  enableScanInQuery :: "bool option"
  enableCrossPartitionQuery :: "bool option"
  populateQuotaInfo :: "bool option"
  populateQueryMetrics :: "bool option"
  maxDegreeOfParallelism :: "int option"
  partitionKey :: "partition_key option"
  enableScriptLogging :: "bool option"
  offerEnableRUPerMinuteThroughput :: "bool option"
  disableRUPerMinuteUsage :: "bool option"

text \<open>The object literal with no field, which \<open>options || {}\<close> puts in place of a missing
  options argument.\<close>

definition emptyOptions :: Options where
  "emptyOptions =
     \<lparr>continuation = None, preTriggerInclude = None, postTriggerInclude = None,
      offerType = None, offerThroughput = None, maxItemCount = None, accessCondition = None,
      useIncrementalFeed = None, indexingDirective = None, consistencyLevel = None,
      resourceTokenExpirySeconds = None, sessionToken = None, enableScanInQuery = None,
      enableCrossPartitionQuery = None, populateQuotaInfo = None, populateQueryMetrics = None,
      maxDegreeOfParallelism = None, partitionKey = None, enableScriptLogging = None,
      offerEnableRUPerMinuteThroughput = None, disableRUPerMinuteUsage = None\<rparr>"

text \<open>
  The credentials. A key is a string; the resource tokens, the permission feed and the
  token provider are objects, so each of them counts as configured when it is there.
\<close>

record 'p AuthOptions =
  masterKey :: "string option"
  key :: "string option"
  resourceTokens :: "(string \<times> string) list option"
  tokenProvider :: "'p option"
  permissionFeed :: "(string \<times> string) list option"

definition configured :: "string option \<Rightarrow> bool" where
  "configured k = (case k of None \<Rightarrow> False | Some s \<Rightarrow> s \<noteq> [])"

subsection \<open>The guarded assignments\<close>

text \<open>
  \<open>if (x) headers[k] = x\<close> for a string, a number and a boolean \<open>x\<close>: the value to store,
  if the guard lets the assignment happen.
\<close>

definition ifString :: "string option \<Rightarrow> header_value option" where
  "ifString x = (case x of None \<Rightarrow> None | Some s \<Rightarrow> if s \<noteq> [] then Some (HString s) else None)"

definition ifNumber :: "int option \<Rightarrow> header_value option" where
  "ifNumber x = (case x of None \<Rightarrow> None | Some n \<Rightarrow> if n \<noteq> 0 then Some (HNumber n) else None)"

definition ifBoolean :: "bool option \<Rightarrow> header_value option" where
  "ifBoolean x = (case x of None \<Rightarrow> None | Some b \<Rightarrow> if b then Some (HBoolean b) else None)"

text \<open>\<open>if (x) headers[k] = true\<close>, and the same with the guard \<open>x !== undefined\<close>.\<close>

definition ifSet :: "bool \<Rightarrow> header_value option" where
  "ifSet b = (if b then Some (HBoolean True) else None)"

text \<open>Lines 55 to 67: an array of trigger names is joined with commas (an array is
  truthy, even when empty), a single name is taken when it is not empty.\<close>

definition ifTriggers :: "trigger_include option \<Rightarrow> header_value option" where
  "ifTriggers x =
     (case x of
        None \<Rightarrow> None
      | Some (TriggerNames ns) \<Rightarrow> Some (HString (join '','' ns))
      | Some (TriggerName n) \<Rightarrow> if n \<noteq> [] then Some (HString n) else None)"

definition assign :: "header_name \<Rightarrow> header_value option \<Rightarrow> CosmosHeaders \<Rightarrow> CosmosHeaders" where
  "assign k v h = (case v of None \<Rightarrow> h | Some x \<Rightarrow> h(k \<mapsto> x))"

text \<open>Lines 81 to 87: the access condition goes to one of two headers.\<close>

definition assignAccessCondition :: "AccessCondition option \<Rightarrow> CosmosHeaders \<Rightarrow> CosmosHeaders" where
  "assignAccessCondition ac h =
     (case ac of
        None \<Rightarrow> h
      | Some a \<Rightarrow>
          if ac_type a = ''IfMatch'' then h(IfMatch \<mapsto> HString (condition a))
          else h(IfNoneMatch \<mapsto> HString (condition a)))"

text \<open>
  Modelled from the spec: \<open>jsonStringifyAndEscapeNonASCII\<close> is imported from \<open>../common\<close>,
  which is not part of the sources at hand. By its name and by the spec's "JSON-escaped"
  it is \<open>JSON.stringify\<close> followed by the escape of every code unit from 128 on.
\<close>

definition escapeNonASCII :: "string \<Rightarrow> string" where
  "escapeNonASCII s =
     concat (map (\<lambda>c. if (of_char c :: nat) \<ge> 0x80 then unicodeEscape (of_char c) else [c]) s)"

definition jsonStringifyAndEscapeNonASCII :: "json \<Rightarrow> string" where
  "jsonStringifyAndEscapeNonASCII j = escapeNonASCII (stringify j)"

text \<open>Lines 133 to 139: a partition key that is \<open>null\<close> or not an array is wrapped in a
  one-element array before it is written.\<close>

definition partitionKeyArray :: "partition_key \<Rightarrow> json" where
  "partitionKeyArray pk =
     (case pk of
        PKNull \<Rightarrow> JArr [JNull]
      | PKString s \<Rightarrow> JArr [JStr s]
      | PKArray ss \<Rightarrow> JArr (map JStr ss))"

definition ifPartitionKey :: "partition_key option \<Rightarrow> header_value option" where
  "ifPartitionKey x =
     map_option (\<lambda>pk. HString (jsonStringifyAndEscapeNonASCII (partitionKeyArray pk))) x"

text \<open>Modelled from the spec: \<open>Constants.MediaTypes.Json\<close> is declared in \<open>../common\<close>; the
  spec calls it the structured JSON media type.\<close>

definition MediaTypes_Json :: string where
  "MediaTypes_Json = ''application/json''"

text \<open>Lines 145 to 153: \<open>if (!headers[k]) headers[k] = v\<close>.\<close>

definition assignDefault :: "header_name \<Rightarrow> header_value \<Rightarrow> CosmosHeaders \<Rightarrow> CosmosHeaders" where
  "assignDefault k v h = (if \<not> truthy (h k) then h(k \<mapsto> v) else h)"

subsection \<open>The assignments in the order of the source\<close>

text \<open>
  Lines 44 to 169. The result starts as a copy of \<open>defaultHeaders\<close>, and every statement
  assigns to that copy. \<open>now\<close> is what \<open>new Date().toUTCString()\<close> returns at the call.
\<close>

definition buildHeaders ::
  "string \<Rightarrow> 'p AuthOptions \<Rightarrow> CosmosHeaders \<Rightarrow> HTTPMethod \<Rightarrow> Options option \<Rightarrow>
   string option \<Rightarrow> bool \<Rightarrow> CosmosHeaders" where
  "buildHeaders now authOptions defaultHeaders verb options partitionKeyRangeId
       useMultipleWriteLocations =
     (let hdrs = defaultHeaders;
          opts = (case options of None \<Rightarrow> emptyOptions | Some given \<Rightarrow> given);
          hdrs = assign ALLOW_MULTIPLE_WRITES (ifSet useMultipleWriteLocations) hdrs;
          hdrs = assign Continuation (ifString (continuation opts)) hdrs;
          hdrs = assign PreTriggerInclude (ifTriggers (preTriggerInclude opts)) hdrs;
          hdrs = assign PostTriggerInclude (ifTriggers (postTriggerInclude opts)) hdrs;
          hdrs = assign OfferType (ifString (offerType opts)) hdrs;
          hdrs = assign OfferThroughput (ifNumber (offerThroughput opts)) hdrs;
          hdrs = assign PageSize (ifNumber (maxItemCount opts)) hdrs;
          hdrs = assignAccessCondition (accessCondition opts) hdrs;
          hdrs = assign A_IM
                   (if useIncrementalFeed opts = Some True then Some (HString ''Incremental Feed'')
                    else None) hdrs;
          hdrs = assign IndexingDirective (ifString (indexingDirective opts)) hdrs;
          hdrs = assign ConsistencyLevel (ifString (consistencyLevel opts)) hdrs;
          hdrs = assign ResourceTokenExpiry (ifNumber (resourceTokenExpirySeconds opts)) hdrs;
          hdrs = assign SessionToken (ifString (sessionToken opts)) hdrs;
          hdrs = assign EnableScanInQuery (ifBoolean (enableScanInQuery opts)) hdrs;
          hdrs = assign EnableCrossPartitionQuery (ifBoolean (enableCrossPartitionQuery opts)) hdrs;
          hdrs = assign PopulateQuotaInfo (ifBoolean (populateQuotaInfo opts)) hdrs;
          hdrs = assign PopulateQueryMetrics (ifBoolean (populateQueryMetrics opts)) hdrs;
          hdrs = assign ParallelizeCrossPartitionQuery
                   (ifSet (maxDegreeOfParallelism opts \<noteq> None)) hdrs;
          hdrs = assign PopulateQuotaInfo (ifSet (populateQuotaInfo opts = Some True)) hdrs;
          hdrs = assign PartitionKey (ifPartitionKey (partitionKey opts)) hdrs;
          hdrs = assign XDate
                   (if configured (masterKey authOptions) \<or> configured (key authOptions)
                       \<or> tokenProvider authOptions \<noteq> None
                    then Some (HString now) else None) hdrs;
          hdrs = (if verb = Post \<or> verb = Put
                  then assignDefault ContentType (HString MediaTypes_Json) hdrs else hdrs);
          hdrs = assignDefault Accept (HString MediaTypes_Json) hdrs;
          hdrs = assign PartitionKeyRangeID (map_option HString partitionKeyRangeId) hdrs;
          hdrs = assign EnableScriptLogging (ifBoolean (enableScriptLogging opts)) hdrs;
          hdrs = assign OfferIsRUPerMinuteThroughputEnabled
                   (ifSet (offerEnableRUPerMinuteThroughput opts = Some True)) hdrs;
          hdrs = assign DisableRUPerMinuteUsage
                   (ifSet (disableRUPerMinuteUsage opts = Some True)) hdrs
      in hdrs)"

subsection \<open>Authorization\<close>

text \<open>
  Modelled from the spec: \<open>setAuthorizationHeader\<close> is imported from \<open>../auth\<close>, which is not
  part of the sources at hand. The spec: it "computes/obtains an authorization token and
  inserts it as an additional header", and it "may invoke an asynchronous token provider".
  Obtaining the token is the parameter \<open>sign\<close>, which returns the token or the error the
  provider rejects with; the header written is the authorization header and no other.
\<close>

type_synonym 'p signer =
  "'p AuthOptions \<Rightarrow> HTTPMethod \<Rightarrow> string \<Rightarrow> string \<Rightarrow> string \<Rightarrow> js_error + string"

definition setAuthorizationHeader ::
  "'p signer \<Rightarrow> 'p AuthOptions \<Rightarrow> HTTPMethod \<Rightarrow> string \<Rightarrow> string \<Rightarrow> string \<Rightarrow>
   CosmosHeaders \<Rightarrow> js_error + CosmosHeaders" where
  "setAuthorizationHeader sign authOptions verb path resourceId resourceType hdrs =
     (case sign authOptions verb path resourceId resourceType of
        Inl e \<Rightarrow> Inl e
      | Inr token \<Rightarrow> Inr (hdrs(Authorization \<mapsto> HString token)))"

text \<open>Lines 170 to 179: any of the five credentials leads to the authorization step.\<close>

definition getHeaders ::
  "'p signer \<Rightarrow> string \<Rightarrow> 'p AuthOptions \<Rightarrow> CosmosHeaders \<Rightarrow> HTTPMethod \<Rightarrow> string \<Rightarrow> string \<Rightarrow>
   string \<Rightarrow> Options option \<Rightarrow> string option \<Rightarrow> bool \<Rightarrow> js_error + CosmosHeaders" where
  "getHeaders sign now authOptions defaultHeaders verb path resourceId resourceType options
       partitionKeyRangeId useMultipleWriteLocations =
     (let hdrs = buildHeaders now authOptions defaultHeaders verb options partitionKeyRangeId
                   useMultipleWriteLocations
      in if configured (masterKey authOptions) \<or> configured (key authOptions)
            \<or> resourceTokens authOptions \<noteq> None \<or> tokenProvider authOptions \<noteq> None
            \<or> permissionFeed authOptions \<noteq> None
         then setAuthorizationHeader sign authOptions verb path resourceId resourceType hdrs
         else Inr hdrs)"

text \<open>Reading the outcome of \<open>getHeaders\<close>: whether it returned, and the entry of a
  header in what it returned.\<close>

definition returned :: "js_error + CosmosHeaders \<Rightarrow> bool" where
  "returned out = (case out of Inl _ \<Rightarrow> False | Inr _ \<Rightarrow> True)"

definition headerOf :: "header_name \<Rightarrow> js_error + CosmosHeaders \<Rightarrow> header_value option" where
  "headerOf k out = (case out of Inl _ \<Rightarrow> None | Inr h \<Rightarrow> h k)"

text \<open>A signer that hands out one fixed token, for running \<open>getHeaders\<close> on examples.\<close>

definition fixedToken :: "string \<Rightarrow> unit signer" where
  "fixedToken t authOptions verb path resourceId resourceType = Inr t"

definition noCredentials :: "unit AuthOptions" where
  "noCredentials =
     \<lparr>masterKey = None, key = None, resourceTokens = None, tokenProvider = None,
      permissionFeed = None\<rparr>"

subsection \<open>\<open>getHeaders\<close> on objects in a store\<close>

text \<open>
  The caller passes \<open>defaultHeaders\<close> and \<open>options\<close> by reference. To speak about what a call
  does to them, objects live in a store, a list whose positions are the references.
  Line 44 allocates a new object holding the entries of \<open>defaultHeaders\<close>; the constant
  \<open>headers\<close> refers to it to the end, and every assignment of lines 47 to 177 has the form
  \<open>headers[k] = v\<close>, so all of them write to that object. \<open>opts\<close> is the options object
  itself (or a new empty object) and is only read.
\<close>

datatype object = HeadersObject CosmosHeaders | OptionsObject Options

type_synonym store = "object list"

definition headersAt :: "store \<Rightarrow> nat \<Rightarrow> CosmosHeaders" where
  "headersAt st r = (case st ! r of HeadersObject h \<Rightarrow> h | OptionsObject _ \<Rightarrow> Map.empty)"

definition optionsAt :: "store \<Rightarrow> nat option \<Rightarrow> Options option" where
  "optionsAt st r =
     (case r of
        None \<Rightarrow> None
      | Some a \<Rightarrow> (case st ! a of OptionsObject given \<Rightarrow> Some given | HeadersObject _ \<Rightarrow> None))"

definition hasCredentials :: "'p AuthOptions \<Rightarrow> bool" where
  "hasCredentials authOptions =
     (configured (masterKey authOptions) \<or> configured (key authOptions)
      \<or> resourceTokens authOptions \<noteq> None \<or> tokenProvider authOptions \<noteq> None
      \<or> permissionFeed authOptions \<noteq> None)"

definition getHeaders_store ::
  "'p signer \<Rightarrow> string \<Rightarrow> store \<Rightarrow> 'p AuthOptions \<Rightarrow> nat \<Rightarrow> HTTPMethod \<Rightarrow> string \<Rightarrow> string \<Rightarrow>
   string \<Rightarrow> nat option \<Rightarrow> string option \<Rightarrow> bool \<Rightarrow> store \<times> (js_error + nat)" where
  "getHeaders_store sign now st authOptions defaultHeaders verb path resourceId resourceType
       options partitionKeyRangeId useMultipleWriteLocations =
     (let hdrs = length st;
          st1 = st @ [HeadersObject (headersAt st defaultHeaders)];
          st2 = st1[hdrs := HeadersObject
                   (buildHeaders now authOptions (headersAt st1 hdrs) verb (optionsAt st1 options)
                      partitionKeyRangeId useMultipleWriteLocations)]
      in if hasCredentials authOptions
         then (case setAuthorizationHeader sign authOptions verb path resourceId resourceType
                      (headersAt st2 hdrs) of
                 Inl e \<Rightarrow> (st2, Inl e)
               | Inr h \<Rightarrow> (st2[hdrs := HeadersObject h], Inr hdrs))
         else (st2, Inr hdrs))"

section \<open>The cached accessors of \<open>Container\<close>\<close>

text \<open>
  A \<open>Container\<close> has five private fields, each \<open>undefined\<close> until its getter has run once
  and a reference to the sub-resource object afterwards. Objects are created on a heap,
  a list whose positions are the references; an object records its class. A getter
  tests the field with \<open>!\<close>, and an object is never falsy.
\<close>

datatype sub_resource = Items | StoredProcedures | Triggers | UserDefinedFunctions | Conflicts

record Container =
  heap :: "sub_resource list"
  items_field :: "nat option"
  sprocs_field :: "nat option"
  triggers_field :: "nat option"
  udfs_field :: "nat option"
  conflicts_field :: "nat option"

text \<open>The constructor (lines 116 to 120) assigns none of the five fields.\<close>

definition newContainer :: Container where
  "newContainer =
     \<lparr>heap = [], items_field = None, sprocs_field = None, triggers_field = None,
      udfs_field = None, conflicts_field = None\<rparr>"

definition items :: "Container \<Rightarrow> nat \<times> Container" where
  "items c =
     (case items_field c of
        None \<Rightarrow> (length (heap c), c\<lparr>heap := heap c @ [Items], items_field := Some (length (heap c))\<rparr>)
      | Some r \<Rightarrow> (r, c))"

definition storedProcedures :: "Container \<Rightarrow> nat \<times> Container" where
  "storedProcedures c =
     (case sprocs_field c of
        None \<Rightarrow> (length (heap c),
                 c\<lparr>heap := heap c @ [StoredProcedures], sprocs_field := Some (length (heap c))\<rparr>)
      | Some r \<Rightarrow> (r, c))"

definition triggers :: "Container \<Rightarrow> nat \<times> Container" where
  "triggers c =
     (case triggers_field c of
        None \<Rightarrow> (length (heap c),
                 c\<lparr>heap := heap c @ [Triggers], triggers_field := Some (length (heap c))\<rparr>)
      | Some r \<Rightarrow> (r, c))"

definition userDefinedFunctions :: "Container \<Rightarrow> nat \<times> Container" where
  "userDefinedFunctions c =
     (case udfs_field c of
        None \<Rightarrow> (length (heap c),
                 c\<lparr>heap := heap c @ [UserDefinedFunctions], udfs_field := Some (length (heap c))\<rparr>)
      | Some r \<Rightarrow> (r, c))"

definition conflicts :: "Container \<Rightarrow> nat \<times> Container" where
  "conflicts c =
     (case conflicts_field c of
        None \<Rightarrow> (length (heap c),
                 c\<lparr>heap := heap c @ [Conflicts], conflicts_field := Some (length (heap c))\<rparr>)
      | Some r \<Rightarrow> (r, c))"

text \<open>Reading accessors one after the other, keeping the references they return.\<close>

fun getter :: "sub_resource \<Rightarrow> Container \<Rightarrow> nat \<times> Container" where
  "getter Items = items"
| "getter StoredProcedures = storedProcedures"
| "getter Triggers = triggers"
| "getter UserDefinedFunctions = userDefinedFunctions"
| "getter Conflicts = conflicts"

fun reads :: "sub_resource list \<Rightarrow> Container \<Rightarrow> nat list \<times> Container" where
  "reads [] c = ([], c)"
| "reads (a # as) c =
     (case getter a c of (r, c') \<Rightarrow> (case reads as c' of (rs, c'') \<Rightarrow> (r # rs, c'')))"

text \<open>The invariant of the cache: a field that is still \<open>undefined\<close> has no object of its
  class on the heap, and a field that is set refers to the one object of its class.\<close>

fun field :: "sub_resource \<Rightarrow> Container \<Rightarrow> nat option" where
  "field Items = items_field"
| "field StoredProcedures = sprocs_field"
| "field Triggers = triggers_field"
| "field UserDefinedFunctions = udfs_field"
| "field Conflicts = conflicts_field"

definition cached :: "Container \<Rightarrow> sub_resource \<Rightarrow> bool" where
  "cached c k =
     (case field k c of
        None \<Rightarrow> count_list (heap c) k = 0
      | Some r \<Rightarrow> r < length (heap c) \<and> heap c ! r = k \<and> count_list (heap c) k = 1)"

section \<open>Retrying an attempt: \<open>RetryUtility.execute\<close>\<close>

text \<open>
  \<open>RequestHandler.request\<close> (RequestHandler.ts, lines 71 to 78) hands the connection policy,
  the request and the caller's abort signal to \<open>RetryUtility.execute\<close>, which runs the
  attempts. That module is imported from \<open>../retry/retryUtility\<close> and is not part of the
  sources at hand; what follows is its description in the spec.
\<close>

text \<open>Modelled from the spec: the three strategies of the retry policy engine (not part of
  the sources at hand), "throttling/backoff, endpoint failover, session-token refresh".\<close>

datatype strategy = Throttling | EndpointFailover | SessionRetry

text \<open>
  Modelled from the spec: the settings the retry policy engine (not part of the sources
  at hand) works with. The budgets of the three strategies, whether the operation may be
  sent to another endpoint, and the sub-status by which the service says that the
  session token is not available.
\<close>

record RetrySettings =
  maxThrottling :: nat
  maxFailover :: nat
  maxSessionRetry :: nat
  redirectSafe :: bool
  sessionSubStatus :: int

text \<open>
  Modelled from the spec: the strategies of the retry policy engine, which is not part of
  the sources at hand. In the spec's order: the throttling strategy "triggers on HTTP
  429"; the endpoint-failover strategy "triggers on connection-level failures, internal
  timeouts, or 503-class" responses, "but only for verbs/resource types that are safe to
  redirect"; the session-retry strategy triggers on "a specific sub-status"; "any error
  not matched above terminates the loop". The spec's taxonomy keeps the user's
  cancellation apart from the transport errors (DNS, connect, TLS), so an error named
  \<open>AbortError\<close> is not a connection-level failure.
\<close>

definition chooseStrategy :: "RetrySettings \<Rightarrow> failure \<Rightarrow> strategy option" where
  "chooseStrategy rs f =
     (case f of
        Rejected e \<Rightarrow>
          if code e = 429 then Some Throttling
          else if code e = 503 \<and> redirectSafe rs then Some EndpointFailover
          else if substatus e = Some (Num (sessionSubStatus rs)) then Some SessionRetry
          else None
      | TimeoutError \<Rightarrow> if redirectSafe rs then Some EndpointFailover else None
      | Thrown e \<Rightarrow>
          if err_name e \<noteq> ''AbortError'' \<and> redirectSafe rs then Some EndpointFailover else None)"

text \<open>Modelled from the spec: each strategy is "bounded by its own max-attempts budget";
  a retry takes one from the budget of the strategy that asks for it.\<close>

definition spend :: "strategy \<Rightarrow> RetrySettings \<Rightarrow> RetrySettings option" where
  "spend st rs =
     (case st of
        Throttling \<Rightarrow>
          if maxThrottling rs = 0 then None else Some (rs\<lparr>maxThrottling := maxThrottling rs - 1\<rparr>)
      | EndpointFailover \<Rightarrow>
          if maxFailover rs = 0 then None else Some (rs\<lparr>maxFailover := maxFailover rs - 1\<rparr>)
      | SessionRetry \<Rightarrow>
          if maxSessionRetry rs = 0 then None
          else Some (rs\<lparr>maxSessionRetry := maxSessionRetry rs - 1\<rparr>))"

text \<open>Modelled from the spec: the retries that the budgets still allow, all strategies
  together.\<close>

definition budget :: "RetrySettings \<Rightarrow> nat" where
  "budget rs = maxThrottling rs + maxFailover rs + maxSessionRetry rs"

text \<open>Modelled from the spec: what a logical call of the absent \<open>RetryUtility.execute\<close>
  ends with. The outcome of its last attempt, the number of attempts, and the number of
  calls of \<open>fetch\<close> over all of them.\<close>

record execution =
  outcome :: "failure + ResponseEnvelope"
  attempts :: nat
  fetchCalls :: nat

text \<open>
  Modelled from the spec: \<open>RetryUtility.execute\<close>, which is not part of the sources at hand.
  The spec's algorithm: "loop: transport attempt; on success return; on failure ask the
  Retry Policy Engine for a decision; if retry: ... loop; else propagate the error", and
  for the caller's signal: "once cancelled, no further retries are attempted and the
  original cancellation is the surfaced error". Attempt \<open>n\<close> meets the transport
  behaviour \<open>ws n\<close>; the signal keeps its state from one attempt to the next. The delay
  before a retry and the endpoint it goes to do not enter, nor does the cap on the total
  waiting time: time and endpoints are not part of this development.
\<close>

function execute ::
  "RetrySettings \<Rightarrow> ConnectionPolicy \<Rightarrow> bool option \<Rightarrow> (nat \<Rightarrow> world) \<Rightarrow> nat \<Rightarrow> nat \<Rightarrow> execution" where
  "execute rs connectionPolicy abortSignal ws n k =
     (case request connectionPolicy abortSignal (ws n) of
        (s, Inr r) \<Rightarrow> \<lparr>outcome = Inr r, attempts = n + 1, fetchCalls = k + fetches s\<rparr>
      | (s, Inl f) \<Rightarrow>
          (if userAborted s = Some True
           then \<lparr>outcome = Inl f, attempts = n + 1, fetchCalls = k + fetches s\<rparr>
           else
             (case chooseStrategy rs f of
                None \<Rightarrow> \<lparr>outcome = Inl f, attempts = n + 1, fetchCalls = k + fetches s\<rparr>
              | Some st \<Rightarrow>
                  (case spend st rs of
                     None \<Rightarrow> \<lparr>outcome = Inl f, attempts = n + 1, fetchCalls = k + fetches s\<rparr>
                   | Some rs' \<Rightarrow>
                       execute rs' connectionPolicy (userAborted s) ws (n + 1) (k + fetches s)))))"
  by pat_completeness auto
termination
  by (relation "measure (\<lambda>(rs, cp, us, ws, n, k). budget rs)")
    (auto simp add: spend_def budget_def split: strategy.splits if_splits)

section \<open>Example inputs\<close>

definition noHeaders :: CosmosHeaders where
  "noHeaders = Map.empty"

text \<open>The text \<open>["abc"]\<close>, seven characters.\<close>

definition abcArray :: string where
  "abcArray = [CHR ''['', CHR 0x22, CHR ''a'', CHR ''b'', CHR ''c'', CHR 0x22, CHR '']'']"

definition throttled :: response where
  "throttled =
     \<lparr>status = 429,
      rheaders = [(ActivityId, ''a1b2''), (RetryAfterInMilliseconds, ''100'')],
      json = Inr (JObj [(''code'', JStr ''429'')])\<rparr>"

definition throttledEnvelope :: ErrorResponse where
  "throttledEnvelope =
     errorResponse 429 (JObj [(''code'', JStr ''429'')]) (materialize (rheaders throttled))"

definition exampleStore :: store where
  "exampleStore =
     [HeadersObject (noHeaders(Accept \<mapsto> HString ''text/plain'')),
      OptionsObject (emptyOptions\<lparr>consistencyLevel := Some ''Session''\<rparr>)]"

definition retrying :: RetrySettings where
  "retrying =
     \<lparr>maxThrottling = 9, maxFailover = 3, maxSessionRetry = 1, redirectSafe = True,
      sessionSubStatus = 1002\<rparr>"

definition refused :: world where
  "refused =
     \<lparr>timer_fires = False, user_fires = False,
      network = Inl \<lparr>err_name = ''FetchError'', err_message = ''connect ECONNREFUSED''\<rparr>\<rparr>"

definition answered :: world where
  "answered =
     \<lparr>timer_fires = False, user_fires = False,
      network = Inr \<lparr>status = 204, rheaders = [], json = Inr JNull\<rparr>\<rparr>"

text \<open>A connection that is refused at the first attempt and answers from then on.\<close>

fun refusedOnce :: "nat \<Rightarrow> world" where
  "refusedOnce 0 = refused"
| "refusedOnce (Suc n) = answered"

section \<open>Properties of \<open>request\<close>\<close>

subsection \<open>Cancellation\<close>

text \<open>
  Claim C1. When the transport attempt fails with an error named \<open>AbortError\<close>: if the
  user's signal is aborted, the timer is cancelled and that same error is raised again;
  otherwise a \<open>TimeoutError\<close> is raised. The two raised values are never the same.
\<close>

theorem request_abort_error_cause:
  assumes "fetch w (wrapUserSignal (start connectionPolicy userSignal)) = (s, Inl error)"
    and "err_name error = ''AbortError''"
  shows "(userAborted s = Some True \<longrightarrow>
            request connectionPolicy userSignal w = (clearTimeout s, Inl (Thrown error))
            \<and> timeout (clearTimeout s) \<noteq> Pending)
       \<and> (userAborted s \<noteq> Some True \<longrightarrow>
            request connectionPolicy userSignal w = (s, Inl TimeoutError))
       \<and> Thrown error \<noteq> TimeoutError"
  using assms
  by (simp add: request_def catchFetch_def clearTimeout_def split: timer.splits)

theorem request_abort_error_cause_witness:
  "request \<lparr>requestTimeout = 50\<rparr> (Some False)
      \<lparr>timer_fires = False, user_fires = True, network = Inl AbortError\<rparr>
     = (\<lparr>timeout = Cleared, delay = 50, controllerAborted = True, userAborted = Some True,
         listening = True, fetches = 1\<rparr>, Inl (Thrown AbortError))
   \<and> request \<lparr>requestTimeout = 50\<rparr> None
      \<lparr>timer_fires = True, user_fires = False, network = Inl AbortError\<rparr>
     = (\<lparr>timeout = Fired, delay = 50, controllerAborted = True, userAborted = None,
         listening = False, fetches = 1\<rparr>, Inl TimeoutError)"
  using request_abort_error_cause [of
      "\<lparr>timer_fires = False, user_fires = True, network = Inl AbortError\<rparr>"
      "\<lparr>requestTimeout = 50\<rparr>" "Some False"
      "\<lparr>timeout = Pending, delay = 50, controllerAborted = True, userAborted = Some True,
         listening = True, fetches = 1\<rparr>" AbortError]
    request_abort_error_cause [of
      "\<lparr>timer_fires = True, user_fires = False, network = Inl AbortError\<rparr>"
      "\<lparr>requestTimeout = 50\<rparr>" None
      "\<lparr>timeout = Fired, delay = 50, controllerAborted = True, userAborted = None,
         listening = False, fetches = 1\<rparr>" AbortError]
  by (simp add: fetch_def wrapUserSignal_def start_def abort_def userAbortEvent_def
      timerCallback_def AbortError_def clearTimeout_def)

lemma request_user_already_aborted:
  "request connectionPolicy (Some True) w
   = (\<lparr>timeout = Cleared, delay = requestTimeout connectionPolicy, controllerAborted = True,
       userAborted = Some True, listening = False, fetches = 1\<rparr>, Inl (Thrown AbortError))"
  by (simp add: request_def fetch_def wrapUserSignal_def start_def catchFetch_def abort_def
      AbortError_def clearTimeout_def)

text \<open>The retry loop does retry where a strategy asks for it: a refused connection is
  followed by a second attempt, which here succeeds.\<close>

lemma execute_retries_refused_connection:
  "execute retrying \<lparr>requestTimeout = 50\<rparr> (Some False) refusedOnce 0 0
   = \<lparr>outcome = Inr \<lparr>res_headers = materialize [], result = JNull, statusCode = 204\<rparr>,
      attempts = 2, fetchCalls = 2\<rparr>"
  by (simp add: retrying_def refused_def answered_def request_def fetch_def wrapUserSignal_def
      start_def catchFetch_def afterFetch_def chooseStrategy_def spend_def clearTimeout_def)

text \<open>
  Claim C7. With a user signal that is aborted before the call, the attempt raises the
  abort error of the transport, whatever the network would have done: the controller is
  aborted at once, no listener is attached, \<open>fetch\<close> is called once, the timer is
  cancelled. The retry loop ends with that error after this one attempt, whatever the
  retry budgets are and wherever it stands (\<open>n\<close> attempts and \<open>k\<close> calls of \<open>fetch\<close> made
  before): no strategy takes the cancellation, and the loop stops on the aborted signal.
\<close>

theorem user_already_aborted_no_retry:
  "request connectionPolicy (Some True) w
     = (\<lparr>timeout = Cleared, delay = requestTimeout connectionPolicy, controllerAborted = True,
         userAborted = Some True, listening = False, fetches = 1\<rparr>, Inl (Thrown AbortError))
   \<and> execute rs connectionPolicy (Some True) ws n k
     = \<lparr>outcome = Inl (Thrown AbortError), attempts = n + 1, fetchCalls = k + 1\<rparr>
   \<and> chooseStrategy rs (Thrown AbortError) = None"
  by (simp add: request_user_already_aborted chooseStrategy_def AbortError_def)

theorem user_already_aborted_no_retry_witness:
  "execute retrying \<lparr>requestTimeout = 50\<rparr> (Some True) refusedOnce 0 0
     = \<lparr>outcome = Inl (Thrown AbortError), attempts = 1, fetchCalls = 1\<rparr>"
  using user_already_aborted_no_retry [of "\<lparr>requestTimeout = 50\<rparr>" refused retrying refusedOnce 0 0]
  by simp

subsection \<open>The timer on the ways out\<close>

text \<open>Once a response has arrived, the timer is cancelled on every way out.\<close>

lemma request_response_clears_timer:
  assumes "fetch w (wrapUserSignal (start connectionPolicy userSignal)) = (s, Inr r)"
  shows "timeout (fst (request connectionPolicy userSignal w)) = Cleared"
  using assms
  by (auto simp add: request_def afterFetch_def clearTimeout_def fetch_def Let_def
      wrapUserSignal_def start_def abort_def timerCallback_def userAbortEvent_def
      split: if_splits sum.splits option.splits bool.splits)

text \<open>The timer is still pending at the end exactly when the network fails while
  neither the timer nor the user's signal has aborted the exchange.\<close>

lemma request_timer_pending_iff:
  "timeout (fst (request connectionPolicy userSignal w)) = Pending
   \<longleftrightarrow> userSignal \<noteq> Some True \<and> \<not> timer_fires w \<and> \<not> (user_fires w \<and> userSignal = Some False)
       \<and> (\<exists>e. network w = Inl e)"
  by (cases userSignal; cases "network w")
    (auto simp add: request_def fetch_def wrapUserSignal_def start_def catchFetch_def
      afterFetch_def clearTimeout_def abort_def timerCallback_def userAbortEvent_def
      AbortError_def Let_def split: if_splits sum.splits bool.splits)

text \<open>
  Claim C2. The claim is that no way out of \<open>request\<close> leaves the timer pending. The \<open>catch\<close>
  clause passes a transport failure on without \<open>clearTimeout\<close>: with a refused connection
  and a timer that has not fired, the call ends with the timer still pending.
\<close>

theorem request_transport_failure_timer_pending:
  "request \<lparr>requestTimeout = 50\<rparr> None
      \<lparr>timer_fires = False, user_fires = False,
       network = Inl \<lparr>err_name = ''FetchError'', err_message = ''connect ECONNREFUSED''\<rparr>\<rparr>
   = (\<lparr>timeout = Pending, delay = 50, controllerAborted = False, userAborted = None,
       listening = False, fetches = 1\<rparr>,
      Inl (Thrown \<lparr>err_name = ''FetchError'', err_message = ''connect ECONNREFUSED''\<rparr>))"
  by (simp add: request_def fetch_def wrapUserSignal_def start_def catchFetch_def)

subsection \<open>Classification of a response\<close>

text \<open>
  Claim C3, as amended. For a response that has arrived: with status 204 or 304 the call
  resolves with \<open>result = null\<close>, whatever parsing the body would do; otherwise the body is
  parsed, and if parsing throws, that error is raised and there is no envelope; if the
  body parses, status 400 or more rejects with the error envelope and a lower status
  resolves with headers, result and status code. Status 400 or more never resolves, and
  an attempt never yields both envelopes.
\<close>

theorem request_classification:
  assumes "fetch w (wrapUserSignal (start connectionPolicy userSignal)) = (s, Inr r)"
  shows "(status r = 204 \<or> status r = 304 \<longrightarrow>
            snd (request connectionPolicy userSignal w)
              = Inr \<lparr>res_headers = materialize (rheaders r), result = JNull, statusCode = status r\<rparr>)
       \<and> (status r \<noteq> 204 \<and> status r \<noteq> 304 \<longrightarrow>
            (case json r of
               Inl e \<Rightarrow> snd (request connectionPolicy userSignal w) = Inl (Thrown e)
             | Inr j \<Rightarrow>
                 if status r \<ge> 400
                 then snd (request connectionPolicy userSignal w)
                        = Inl (Rejected (errorResponse (status r) j (materialize (rheaders r))))
                 else snd (request connectionPolicy userSignal w)
                        = Inr \<lparr>res_headers = materialize (rheaders r), result = j,
                               statusCode = status r\<rparr>))
       \<and> (status r \<ge> 400 \<longrightarrow> \<not> isSuccessEnvelope (snd (request connectionPolicy userSignal w)))
       \<and> \<not> (isErrorEnvelope (snd (request connectionPolicy userSignal w))
              \<and> isSuccessEnvelope (snd (request connectionPolicy userSignal w)))"
  using assms
  by (auto simp add: request_def afterFetch_def Let_def isSuccessEnvelope_def isErrorEnvelope_def
      split: sum.splits failure.splits)

theorem request_classification_witness:
  "snd (request \<lparr>requestTimeout = 50\<rparr> None
        \<lparr>timer_fires = False, user_fires = False,
         network = Inr \<lparr>status = 204, rheaders = [],
                        json = Inl \<lparr>err_name = ''SyntaxError'',
                                    err_message = ''Unexpected end of JSON input''\<rparr>\<rparr>\<rparr>)
     = Inr \<lparr>res_headers = materialize [], result = JNull, statusCode = 204\<rparr>"
  using request_classification [of
      "\<lparr>timer_fires = False, user_fires = False,
         network = Inr \<lparr>status = 204, rheaders = [],
                        json = Inl \<lparr>err_name = ''SyntaxError'',
                                    err_message = ''Unexpected end of JSON input''\<rparr>\<rparr>\<rparr>"
      "\<lparr>requestTimeout = 50\<rparr>" None
      "\<lparr>timeout = Pending, delay = 50, controllerAborted = False, userAborted = None,
         listening = False, fetches = 1\<rparr>"
      "\<lparr>status = 204, rheaders = [],
         json = Inl \<lparr>err_name = ''SyntaxError'',
                     err_message = ''Unexpected end of JSON input''\<rparr>\<rparr>"]
  by (simp add: fetch_def wrapUserSignal_def start_def)

text \<open>A 404 whose body does not parse: the call raises the parser's error, which is
  neither envelope.\<close>

theorem request_error_status_unparsable_counterexample:
  "snd (request \<lparr>requestTimeout = 50\<rparr> None
        \<lparr>timer_fires = False, user_fires = False,
         network = Inr \<lparr>status = 404, rheaders = [],
                        json = Inl \<lparr>err_name = ''SyntaxError'',
                                    err_message = ''Unexpected end of JSON input''\<rparr>\<rparr>\<rparr>)
     = Inl (Thrown \<lparr>err_name = ''SyntaxError'', err_message = ''Unexpected end of JSON input''\<rparr>)
   \<and> \<not> isErrorEnvelope (snd (request \<lparr>requestTimeout = 50\<rparr> None
        \<lparr>timer_fires = False, user_fires = False,
         network = Inr \<lparr>status = 404, rheaders = [],
                        json = Inl \<lparr>err_name = ''SyntaxError'',
                                    err_message = ''Unexpected end of JSON input''\<rparr>\<rparr>\<rparr>))
   \<and> \<not> isSuccessEnvelope (snd (request \<lparr>requestTimeout = 50\<rparr> None
        \<lparr>timer_fires = False, user_fires = False,
         network = Inr \<lparr>status = 404, rheaders = [],
                        json = Inl \<lparr>err_name = ''SyntaxError'',
                                    err_message = ''Unexpected end of JSON input''\<rparr>\<rparr>\<rparr>))"
  by (simp add: request_def fetch_def wrapUserSignal_def start_def afterFetch_def
      isErrorEnvelope_def isSuccessEnvelope_def)

subsection \<open>The error envelope\<close>

lemma request_rejected_origin:
  assumes "snd (request connectionPolicy userSignal w) = Inl (Rejected e)"
  shows "\<exists>r j. network w = Inr r \<and> json r = Inr j \<and> 400 \<le> status r
          \<and> e = errorResponse (status r) j (materialize (rheaders r))"
  using assms
  by (auto simp add: request_def fetch_def Let_def catchFetch_def afterFetch_def
      split: if_splits sum.splits prod.splits)

lemma errorResponse_fields:
  "code (errorResponse st res hdrs) = st"
  "body (errorResponse st res hdrs) = stringify res"
  "headers (errorResponse st res hdrs) = hdrs"
  "activityId (errorResponse st res hdrs) = hdrs ActivityId"
  "substatus (errorResponse st res hdrs) = map_option parseInt (hdrs SubStatus)"
  "retryAfterInMilliseconds (errorResponse st res hdrs)
     = map_option parseInt (hdrs RetryAfterInMilliseconds)"
  by (simp_all add: errorResponse_def Let_def split: option.splits)

text \<open>
  Claim C5. An error envelope that \<open>request\<close> rejects with comes from a response with
  status 400 or more whose body parsed. Its code is the status, its headers are the
  materialized response headers, its body is the parsed body turned into a string
  again; the activity id is there exactly when its header is, and so are the sub-status
  and the retry-after, each the \<open>parseInt\<close> of its header.
\<close>

theorem request_error_envelope_fields:
  assumes "snd (request connectionPolicy userSignal w) = Inl (Rejected e)"
  shows "\<exists>r j. network w = Inr r \<and> json r = Inr j \<and> 400 \<le> status r
          \<and> code e = status r
          \<and> headers e = materialize (rheaders r)
          \<and> body e = stringify j
          \<and> activityId e = materialize (rheaders r) ActivityId
          \<and> substatus e = map_option parseInt (materialize (rheaders r) SubStatus)
          \<and> retryAfterInMilliseconds e
              = map_option parseInt (materialize (rheaders r) RetryAfterInMilliseconds)"
proof -
  from request_rejected_origin [OF assms] obtain r j where
    *: "network w = Inr r" "json r = Inr j" "400 \<le> status r"
       "e = errorResponse (status r) j (materialize (rheaders r))"
    by blast
  show ?thesis
    using * by (simp add: errorResponse_fields)
qed

theorem request_error_envelope_fields_witness:
  "snd (request \<lparr>requestTimeout = 50\<rparr> None
          \<lparr>timer_fires = False, user_fires = False, network = Inr throttled\<rparr>)
     = Inl (Rejected throttledEnvelope)
   \<and> code throttledEnvelope = 429
   \<and> activityId throttledEnvelope = Some ''a1b2''
   \<and> substatus throttledEnvelope = None
   \<and> retryAfterInMilliseconds throttledEnvelope = Some (Num 100)"
proof -
  have rej: "snd (request \<lparr>requestTimeout = 50\<rparr> None
          \<lparr>timer_fires = False, user_fires = False, network = Inr throttled\<rparr>)
        = Inl (Rejected throttledEnvelope)"
    by (simp add: request_def fetch_def wrapUserSignal_def start_def afterFetch_def
        throttled_def throttledEnvelope_def)
  from request_error_envelope_fields [OF rej] obtain r j where
    r: "network \<lparr>timer_fires = False, user_fires = False, network = Inr throttled\<rparr> = Inr r"
    and f: "code throttledEnvelope = status r"
      "activityId throttledEnvelope = materialize (rheaders r) ActivityId"
      "substatus throttledEnvelope = map_option parseInt (materialize (rheaders r) SubStatus)"
      "retryAfterInMilliseconds throttledEnvelope
         = map_option parseInt (materialize (rheaders r) RetryAfterInMilliseconds)"
    by blast
  from r have "r = throttled" by simp
  with f rej show ?thesis
    by (simp add: throttled_def materialize_def parseInt_def isWhiteSpace_def isDigit_def
        digitsValue_def)
qed

section \<open>Properties of \<open>getHeaders\<close>\<close>

subsection \<open>Reading one header of the result\<close>

lemma assign_apply:
  "assign k v h k' = (if k' = k then (case v of None \<Rightarrow> h k | Some x \<Rightarrow> Some x) else h k')"
  by (simp add: assign_def split: option.splits)

lemma assignDefault_apply:
  "assignDefault k v h k' = (if k' = k \<and> \<not> truthy (h k) then Some v else h k')"
  by (simp add: assignDefault_def)

lemma assignAccessCondition_apply:
  "k' \<noteq> IfMatch \<Longrightarrow> k' \<noteq> IfNoneMatch \<Longrightarrow> assignAccessCondition ac h k' = h k'"
  by (simp add: assignAccessCondition_def split: option.splits)

lemma truthy_present: "truthy v \<Longrightarrow> v \<noteq> None"
  by (cases v) simp_all

lemma buildHeaders_Accept:
  "buildHeaders now authOptions defaultHeaders verb options partitionKeyRangeId mw Accept
   = (if truthy (defaultHeaders Accept) then defaultHeaders Accept
      else Some (HString MediaTypes_Json))"
  by (simp add: buildHeaders_def Let_def assign_apply assignDefault_apply
      assignAccessCondition_apply)

lemma buildHeaders_ContentType:
  "buildHeaders now authOptions defaultHeaders verb options partitionKeyRangeId mw ContentType
   = (if (verb = Post \<or> verb = Put) \<and> \<not> truthy (defaultHeaders ContentType)
      then Some (HString MediaTypes_Json) else defaultHeaders ContentType)"
  by (simp add: buildHeaders_def Let_def assign_apply assignDefault_apply
      assignAccessCondition_apply)

lemma buildHeaders_XDate:
  "buildHeaders now authOptions defaultHeaders verb options partitionKeyRangeId mw XDate
   = (if configured (masterKey authOptions) \<or> configured (key authOptions)
         \<or> tokenProvider authOptions \<noteq> None
      then Some (HString now) else defaultHeaders XDate)"
  by (simp add: buildHeaders_def Let_def assign_apply assignDefault_apply
      assignAccessCondition_apply)

lemma buildHeaders_PartitionKey:
  "buildHeaders now authOptions defaultHeaders verb options partitionKeyRangeId mw PartitionKey
   = (case options of
        None \<Rightarrow> defaultHeaders PartitionKey
      | Some opts \<Rightarrow>
          (case partitionKey opts of
             None \<Rightarrow> defaultHeaders PartitionKey
           | Some pk \<Rightarrow> Some (HString (jsonStringifyAndEscapeNonASCII (partitionKeyArray pk)))))"
  by (simp add: buildHeaders_def Let_def assign_apply assignDefault_apply
      assignAccessCondition_apply ifPartitionKey_def emptyOptions_def split: option.splits)

lemma buildHeaders_ConsistencyLevel:
  "buildHeaders now authOptions defaultHeaders verb options partitionKeyRangeId mw ConsistencyLevel
   = (case options of
        None \<Rightarrow> defaultHeaders ConsistencyLevel
      | Some opts \<Rightarrow>
          (case ifString (consistencyLevel opts) of
             None \<Rightarrow> defaultHeaders ConsistencyLevel
           | Some v \<Rightarrow> Some v))"
  by (simp add: buildHeaders_def Let_def assign_apply assignDefault_apply
      assignAccessCondition_apply emptyOptions_def ifString_def split: option.splits)

text \<open>The authorization step changes no header but the authorization header, and
  \<open>getHeaders\<close> fails only when obtaining the token does.\<close>

lemma getHeaders_apply:
  assumes "getHeaders sign now authOptions defaultHeaders verb path resourceId resourceType
             options partitionKeyRangeId mw = Inr h"
    and "k \<noteq> Authorization"
  shows "h k = buildHeaders now authOptions defaultHeaders verb options partitionKeyRangeId mw k"
  using assms
  by (auto simp add: getHeaders_def Let_def setAuthorizationHeader_def
      split: if_splits sum.splits)

lemma getHeaders_fails_iff:
  "getHeaders sign now authOptions defaultHeaders verb path resourceId resourceType
             options partitionKeyRangeId mw = Inl e
   \<longleftrightarrow> hasCredentials authOptions \<and> sign authOptions verb path resourceId resourceType = Inl e"
  by (auto simp add: getHeaders_def Let_def setAuthorizationHeader_def hasCredentials_def
      split: if_splits sum.splits)

lemma headerOf_getHeaders:
  assumes "returned (getHeaders sign now authOptions defaultHeaders verb path resourceId
             resourceType options partitionKeyRangeId mw)"
    and "k \<noteq> Authorization"
  shows "headerOf k (getHeaders sign now authOptions defaultHeaders verb path resourceId
             resourceType options partitionKeyRangeId mw)
         = buildHeaders now authOptions defaultHeaders verb options partitionKeyRangeId mw k"
proof -
  from assms(1) obtain h where h: "getHeaders sign now authOptions defaultHeaders verb path
      resourceId resourceType options partitionKeyRangeId mw = Inr h"
    by (auto simp add: returned_def split: sum.splits)
  from getHeaders_apply [OF h assms(2)] h show ?thesis
    by (simp add: headerOf_def)
qed

lemma partitionKey_abc:
  "jsonStringifyAndEscapeNonASCII (partitionKeyArray (PKString ''abc'')) = abcArray"
  by (simp add: jsonStringifyAndEscapeNonASCII_def partitionKeyArray_def escapeNonASCII_def
      quoteString_def quoteChar_def abcArray_def)

subsection \<open>The timestamp\<close>

text \<open>
  Claim C4, as amended. In what \<open>getHeaders\<close> returns, the timestamp header holds the
  current time exactly when a master key or a resource key that is not empty, or a token
  provider, is configured. Otherwise it is as \<open>defaultHeaders\<close> has it; resource tokens
  or a permission feed alone add no timestamp.
\<close>

theorem getHeaders_XDate:
  assumes "returned (getHeaders sign now authOptions defaultHeaders verb path resourceId
             resourceType options partitionKeyRangeId mw)"
  shows "headerOf XDate (getHeaders sign now authOptions defaultHeaders verb path resourceId
             resourceType options partitionKeyRangeId mw)
         = (if configured (masterKey authOptions) \<or> configured (key authOptions)
               \<or> tokenProvider authOptions \<noteq> None
            then Some (HString now) else defaultHeaders XDate)"
  using headerOf_getHeaders [OF assms, of XDate] by (simp add: buildHeaders_XDate)

theorem getHeaders_XDate_witness:
  "returned (getHeaders (fixedToken ''t0'') ''Tue, 03 Nov 2026 10:00:00 GMT''
       (noCredentials\<lparr>masterKey := Some ''c2VjcmV0''\<rparr>) noHeaders Get ''/dbs/db1'' ''db1'' ''dbs''
       None None False)
   \<and> headerOf XDate (getHeaders (fixedToken ''t0'') ''Tue, 03 Nov 2026 10:00:00 GMT''
       (noCredentials\<lparr>masterKey := Some ''c2VjcmV0''\<rparr>) noHeaders Get ''/dbs/db1'' ''db1'' ''dbs''
       None None False)
     = Some (HString ''Tue, 03 Nov 2026 10:00:00 GMT'')"
  using getHeaders_XDate [of "fixedToken ''t0''" "''Tue, 03 Nov 2026 10:00:00 GMT''"
      "noCredentials\<lparr>masterKey := Some ''c2VjcmV0''\<rparr>" noHeaders Get "''/dbs/db1''" "''db1''"
      "''dbs''" None None False]
  by (simp add: returned_def getHeaders_def setAuthorizationHeader_def fixedToken_def
      noCredentials_def configured_def)

text \<open>With resource tokens as the only credential the authorization step runs, and the
  result has no timestamp.\<close>

theorem getHeaders_XDate_resourceTokens_counterexample:
  "returned (getHeaders (fixedToken ''t0'') ''Tue, 03 Nov 2026 10:00:00 GMT''
       (noCredentials\<lparr>resourceTokens := Some [(''dbs/db1/colls/c1'', ''t0'')]\<rparr>) noHeaders Get
       ''/dbs/db1'' ''db1'' ''dbs'' None None False)
   \<and> hasCredentials (noCredentials\<lparr>resourceTokens := Some [(''dbs/db1/colls/c1'', ''t0'')]\<rparr>)
   \<and> headerOf XDate (getHeaders (fixedToken ''t0'') ''Tue, 03 Nov 2026 10:00:00 GMT''
       (noCredentials\<lparr>resourceTokens := Some [(''dbs/db1/colls/c1'', ''t0'')]\<rparr>) noHeaders Get
       ''/dbs/db1'' ''db1'' ''dbs'' None None False)
     = None"
proof -
  have r: "returned (getHeaders (fixedToken ''t0'') ''Tue, 03 Nov 2026 10:00:00 GMT''
       (noCredentials\<lparr>resourceTokens := Some [(''dbs/db1/colls/c1'', ''t0'')]\<rparr>) noHeaders Get
       ''/dbs/db1'' ''db1'' ''dbs'' None None False)"
    by (simp add: returned_def getHeaders_def setAuthorizationHeader_def fixedToken_def
        noCredentials_def configured_def)
  from headerOf_getHeaders [OF r, of XDate] r show ?thesis
    by (simp add: buildHeaders_XDate noCredentials_def configured_def hasCredentials_def
        noHeaders_def)
qed

subsection \<open>Partition key and consistency level\<close>

text \<open>
  Claim C6, as amended. In what \<open>getHeaders\<close> returns: options with the partition key
  \<open>"abc"\<close> give the partition-key header the text \<open>["abc"]\<close>; options with the consistency
  level \<open>"Session"\<close> give the consistency-level header \<open>"Session"\<close>; with no options, or
  options with no field, \<open>getHeaders\<close> adds neither header, so each is in the result
  exactly as \<open>defaultHeaders\<close> has it.
\<close>

theorem getHeaders_partitionKey_consistencyLevel:
  assumes "returned (getHeaders sign now authOptions defaultHeaders verb path resourceId
             resourceType options partitionKeyRangeId mw)"
  shows "(\<forall>opts. options = Some opts \<and> partitionKey opts = Some (PKString ''abc'') \<longrightarrow>
            headerOf PartitionKey (getHeaders sign now authOptions defaultHeaders verb path
              resourceId resourceType options partitionKeyRangeId mw) = Some (HString abcArray))
       \<and> (\<forall>opts. options = Some opts \<and> consistencyLevel opts = Some ''Session'' \<longrightarrow>
            headerOf ConsistencyLevel (getHeaders sign now authOptions defaultHeaders verb path
              resourceId resourceType options partitionKeyRangeId mw) = Some (HString ''Session''))
       \<and> (options = None \<or> options = Some emptyOptions \<longrightarrow>
            headerOf PartitionKey (getHeaders sign now authOptions defaultHeaders verb path
              resourceId resourceType options partitionKeyRangeId mw) = defaultHeaders PartitionKey
            \<and> headerOf ConsistencyLevel (getHeaders sign now authOptions defaultHeaders verb path
              resourceId resourceType options partitionKeyRangeId mw)
                = defaultHeaders ConsistencyLevel)"
  using headerOf_getHeaders [OF assms, of PartitionKey]
    headerOf_getHeaders [OF assms, of ConsistencyLevel]
  by (auto simp add: buildHeaders_PartitionKey buildHeaders_ConsistencyLevel partitionKey_abc
      ifString_def emptyOptions_def)

theorem getHeaders_partitionKey_consistencyLevel_witness:
  "headerOf PartitionKey (getHeaders (fixedToken ''t0'') ''Tue, 03 Nov 2026 10:00:00 GMT''
       noCredentials noHeaders Get ''/dbs/db1'' ''db1'' ''dbs''
       (Some (emptyOptions\<lparr>consistencyLevel := Some ''Session'',
                partitionKey := Some (PKString ''abc'')\<rparr>)) None False)
     = Some (HString abcArray)
   \<and> headerOf ConsistencyLevel (getHeaders (fixedToken ''t0'') ''Tue, 03 Nov 2026 10:00:00 GMT''
       noCredentials noHeaders Get ''/dbs/db1'' ''db1'' ''dbs''
       (Some (emptyOptions\<lparr>consistencyLevel := Some ''Session'',
                partitionKey := Some (PKString ''abc'')\<rparr>)) None False)
     = Some (HString ''Session'')
   \<and> headerOf PartitionKey (getHeaders (fixedToken ''t0'') ''Tue, 03 Nov 2026 10:00:00 GMT''
       noCredentials noHeaders Get ''/dbs/db1'' ''db1'' ''dbs'' (Some emptyOptions) None False)
     = None
   \<and> headerOf ConsistencyLevel (getHeaders (fixedToken ''t0'') ''Tue, 03 Nov 2026 10:00:00 GMT''
       noCredentials noHeaders Get ''/dbs/db1'' ''db1'' ''dbs'' (Some emptyOptions) None False)
     = None"
  using getHeaders_partitionKey_consistencyLevel [of "fixedToken ''t0''"
      "''Tue, 03 Nov 2026 10:00:00 GMT''" noCredentials noHeaders Get "''/dbs/db1''" "''db1''"
      "''dbs''" "Some (emptyOptions\<lparr>consistencyLevel := Some ''Session'',
                partitionKey := Some (PKString ''abc'')\<rparr>)" None False]
    getHeaders_partitionKey_consistencyLevel [of "fixedToken ''t0''"
      "''Tue, 03 Nov 2026 10:00:00 GMT''" noCredentials noHeaders Get "''/dbs/db1''" "''db1''"
      "''dbs''" "Some emptyOptions" None False]
  by (simp add: returned_def getHeaders_def noCredentials_def configured_def emptyOptions_def
      noHeaders_def)

text \<open>A client-wide consistency level sits in \<open>defaultHeaders\<close>; with options that have no
  field the result still carries the header.\<close>

theorem getHeaders_default_consistencyLevel_counterexample:
  "returned (getHeaders (fixedToken ''t0'') ''Tue, 03 Nov 2026 10:00:00 GMT'' noCredentials
       (noHeaders(ConsistencyLevel \<mapsto> HString ''Eventual'')) Get ''/dbs/db1'' ''db1'' ''dbs''
       (Some emptyOptions) None False)
   \<and> headerOf ConsistencyLevel (getHeaders (fixedToken ''t0'') ''Tue, 03 Nov 2026 10:00:00 GMT''
       noCredentials (noHeaders(ConsistencyLevel \<mapsto> HString ''Eventual'')) Get ''/dbs/db1''
       ''db1'' ''dbs'' (Some emptyOptions) None False)
     = Some (HString ''Eventual'')"
proof -
  have r: "returned (getHeaders (fixedToken ''t0'') ''Tue, 03 Nov 2026 10:00:00 GMT'' noCredentials
       (noHeaders(ConsistencyLevel \<mapsto> HString ''Eventual'')) Get ''/dbs/db1'' ''db1'' ''dbs''
       (Some emptyOptions) None False)"
    by (simp add: returned_def getHeaders_def noCredentials_def configured_def)
  from headerOf_getHeaders [OF r, of ConsistencyLevel] r show ?thesis
    by (simp add: buildHeaders_ConsistencyLevel emptyOptions_def ifString_def)
qed

subsection \<open>Accept and content type\<close>

text \<open>
  Claim C8, as amended. For every verb, what \<open>getHeaders\<close> returns has an Accept header:
  the one of \<open>defaultHeaders\<close> when that is truthy (a string that is not empty, a number
  that is not zero, \<open>true\<close>), the JSON media type otherwise. For POST and PUT the content
  type is settled the same way; for the other verbs it is as \<open>defaultHeaders\<close> has it.
  A truthy Accept or content type of \<open>defaultHeaders\<close> is never replaced.
\<close>

theorem getHeaders_Accept_ContentType:
  assumes "returned (getHeaders sign now authOptions defaultHeaders verb path resourceId
             resourceType options partitionKeyRangeId mw)"
  shows "headerOf Accept (getHeaders sign now authOptions defaultHeaders verb path resourceId
             resourceType options partitionKeyRangeId mw)
           = (if truthy (defaultHeaders Accept) then defaultHeaders Accept
              else Some (HString MediaTypes_Json))
       \<and> headerOf Accept (getHeaders sign now authOptions defaultHeaders verb path resourceId
             resourceType options partitionKeyRangeId mw) \<noteq> None
       \<and> headerOf ContentType (getHeaders sign now authOptions defaultHeaders verb path
             resourceId resourceType options partitionKeyRangeId mw)
           = (if (verb = Post \<or> verb = Put) \<and> \<not> truthy (defaultHeaders ContentType)
              then Some (HString MediaTypes_Json) else defaultHeaders ContentType)"
  using headerOf_getHeaders [OF assms, of Accept] headerOf_getHeaders [OF assms, of ContentType]
  by (auto simp add: buildHeaders_Accept buildHeaders_ContentType dest: truthy_present)

theorem getHeaders_Accept_ContentType_witness:
  "returned (getHeaders (fixedToken ''t0'') ''Tue, 03 Nov 2026 10:00:00 GMT'' noCredentials
       (noHeaders(Accept \<mapsto> HString ''text/plain'')) Post ''/dbs/db1'' ''db1'' ''dbs'' None None
       False)
   \<and> headerOf Accept (getHeaders (fixedToken ''t0'') ''Tue, 03 Nov 2026 10:00:00 GMT''
       noCredentials (noHeaders(Accept \<mapsto> HString ''text/plain'')) Post ''/dbs/db1'' ''db1''
       ''dbs'' None None False) = Some (HString ''text/plain'')
   \<and> headerOf ContentType (getHeaders (fixedToken ''t0'') ''Tue, 03 Nov 2026 10:00:00 GMT''
       noCredentials (noHeaders(Accept \<mapsto> HString ''text/plain'')) Post ''/dbs/db1'' ''db1''
       ''dbs'' None None False) = Some (HString ''application/json'')"
  using getHeaders_Accept_ContentType [of "fixedToken ''t0''" "''Tue, 03 Nov 2026 10:00:00 GMT''"
      noCredentials "noHeaders(Accept \<mapsto> HString ''text/plain'')" Post "''/dbs/db1''" "''db1''"
      "''dbs''" None None False]
  by (simp add: returned_def getHeaders_def noCredentials_def configured_def MediaTypes_Json_def
      noHeaders_def)

text \<open>An Accept header that is supplied as the empty string is replaced by the default.\<close>

theorem getHeaders_empty_Accept_counterexample:
  "returned (getHeaders (fixedToken ''t0'') ''Tue, 03 Nov 2026 10:00:00 GMT'' noCredentials
       (noHeaders(Accept \<mapsto> HString [])) Get ''/dbs/db1'' ''db1'' ''dbs'' None None False)
   \<and> (noHeaders(Accept \<mapsto> HString [])) Accept = Some (HString [])
   \<and> headerOf Accept (getHeaders (fixedToken ''t0'') ''Tue, 03 Nov 2026 10:00:00 GMT''
       noCredentials (noHeaders(Accept \<mapsto> HString [])) Get ''/dbs/db1'' ''db1'' ''dbs'' None None
       False)
     = Some (HString ''application/json'')"
proof -
  have r: "returned (getHeaders (fixedToken ''t0'') ''Tue, 03 Nov 2026 10:00:00 GMT'' noCredentials
       (noHeaders(Accept \<mapsto> HString [])) Get ''/dbs/db1'' ''db1'' ''dbs'' None None False)"
    by (simp add: returned_def getHeaders_def noCredentials_def configured_def)
  from headerOf_getHeaders [OF r, of Accept] r show ?thesis
    by (simp add: buildHeaders_Accept MediaTypes_Json_def)
qed

subsection \<open>The caller's objects\<close>

lemma optionsAt_append:
  "\<forall>r. options = Some r \<longrightarrow> r < length st \<Longrightarrow> optionsAt (st @ xs) options = optionsAt st options"
  by (simp add: optionsAt_def nth_append split: option.splits)

lemma headersAt_fresh: "headersAt (st @ [HeadersObject h]) (length st) = h"
  by (simp add: headersAt_def)

lemma headersAt_update: "a < length st \<Longrightarrow> headersAt (st[a := HeadersObject h]) a = h"
  by (simp add: headersAt_def)

text \<open>
  Claim C9. A call of \<open>getHeaders\<close> leaves every object that was in the store before the
  call as it was, \<open>defaultHeaders\<close> and the options object among them. The object it
  returns is a new one, at a reference that was not in use, so it is not
  \<open>defaultHeaders\<close>; it holds the headers computed from the caller's two objects.
\<close>

theorem getHeaders_store_frame:
  assumes "defaultHeaders < length st"
    and "\<forall>r. options = Some r \<longrightarrow> r < length st"
  shows "(\<forall>a<length st.
            fst (getHeaders_store sign now st authOptions defaultHeaders verb path resourceId
                   resourceType options partitionKeyRangeId mw) ! a = st ! a)
       \<and> (\<forall>a. snd (getHeaders_store sign now st authOptions defaultHeaders verb path resourceId
                   resourceType options partitionKeyRangeId mw) = Inr a \<longrightarrow>
            a = length st \<and> a \<noteq> defaultHeaders
            \<and> getHeaders sign now authOptions (headersAt st defaultHeaders) verb path resourceId
                resourceType (optionsAt st options) partitionKeyRangeId mw
              = Inr (headersAt
                  (fst (getHeaders_store sign now st authOptions defaultHeaders verb path
                     resourceId resourceType options partitionKeyRangeId mw)) a))"
proof (intro conjI allI impI)
  fix a assume "a < length st"
  then show "fst (getHeaders_store sign now st authOptions defaultHeaders verb path resourceId
                   resourceType options partitionKeyRangeId mw) ! a = st ! a"
    by (simp add: getHeaders_store_def Let_def nth_append split: sum.splits)
next
  fix a
  assume out: "snd (getHeaders_store sign now st authOptions defaultHeaders verb path resourceId
                   resourceType options partitionKeyRangeId mw) = Inr a"
  then show "a = length st"
    by (simp add: getHeaders_store_def Let_def split: if_splits sum.splits)
  with assms(1) show "a \<noteq> defaultHeaders" by simp
  from out show "getHeaders sign now authOptions (headersAt st defaultHeaders) verb path resourceId
                resourceType (optionsAt st options) partitionKeyRangeId mw
              = Inr (headersAt
                  (fst (getHeaders_store sign now st authOptions defaultHeaders verb path
                     resourceId resourceType options partitionKeyRangeId mw)) a)"
    using optionsAt_append [OF assms(2), of "[HeadersObject (headersAt st defaultHeaders)]"]
    by (auto simp add: getHeaders_store_def getHeaders_def Let_def hasCredentials_def
        headersAt_fresh headersAt_update split: if_splits sum.splits)
qed

theorem getHeaders_store_frame_witness:
  "fst (getHeaders_store (fixedToken ''t0'') ''Tue, 03 Nov 2026 10:00:00 GMT'' exampleStore
           (noCredentials\<lparr>masterKey := Some ''c2VjcmV0''\<rparr>) 0 Post ''/dbs/db1'' ''db1'' ''dbs''
           (Some 1) None False) ! 0 = exampleStore ! 0
   \<and> fst (getHeaders_store (fixedToken ''t0'') ''Tue, 03 Nov 2026 10:00:00 GMT'' exampleStore
           (noCredentials\<lparr>masterKey := Some ''c2VjcmV0''\<rparr>) 0 Post ''/dbs/db1'' ''db1'' ''dbs''
           (Some 1) None False) ! 1 = exampleStore ! 1
   \<and> snd (getHeaders_store (fixedToken ''t0'') ''Tue, 03 Nov 2026 10:00:00 GMT'' exampleStore
           (noCredentials\<lparr>masterKey := Some ''c2VjcmV0''\<rparr>) 0 Post ''/dbs/db1'' ''db1'' ''dbs''
           (Some 1) None False) = Inr 2"
proof -
  have len: "length exampleStore = 2" by (simp add: exampleStore_def)
  have out: "snd (getHeaders_store (fixedToken ''t0'') ''Tue, 03 Nov 2026 10:00:00 GMT'' exampleStore
           (noCredentials\<lparr>masterKey := Some ''c2VjcmV0''\<rparr>) 0 Post ''/dbs/db1'' ''db1'' ''dbs''
           (Some 1) None False) = Inr 2"
    by (simp add: getHeaders_store_def Let_def hasCredentials_def noCredentials_def
        configured_def setAuthorizationHeader_def fixedToken_def len)
  have "0 < length exampleStore" and "\<forall>r. Some (1::nat) = Some r \<longrightarrow> r < length exampleStore"
    by (simp_all add: len)
  from getHeaders_store_frame [OF this, of "fixedToken ''t0''" "''Tue, 03 Nov 2026 10:00:00 GMT''"
      "noCredentials\<lparr>masterKey := Some ''c2VjcmV0''\<rparr>" Post "''/dbs/db1''" "''db1''" "''dbs''"
      None False] out
  show ?thesis by (simp add: len)
qed

section \<open>Properties of the accessors of \<open>Container\<close>\<close>

lemmas getter_defs =
  items_def storedProcedures_def triggers_def userDefinedFunctions_def conflicts_def

lemma getter_sets_field: "getter a c = (r, c') \<Longrightarrow> field a c' = Some r"
  by (cases a) (auto simp add: getter_defs split: option.splits)

lemma getter_keeps_field: "field k c = Some r \<Longrightarrow> field k (snd (getter a c)) = Some r"
  by (cases a; cases k) (auto simp add: getter_defs split: option.splits)

lemma getter_again: "getter a c = (r, c') \<Longrightarrow> getter a c' = (r, c')"
  by (cases a) (auto simp add: getter_defs split: option.splits)

lemma getter_cached:
  assumes "\<forall>k. cached c k"
  shows "cached (snd (getter a c)) k"
proof -
  from assms have "cached c k" and "cached c a" by simp_all
  then show ?thesis
    by (cases a; cases k) (auto simp add: getter_defs cached_def nth_append split: option.splits)
qed

lemma reads_keeps_field:
  "reads ops c = (refs, c') \<Longrightarrow> field k c = Some r \<Longrightarrow> field k c' = Some r"
proof (induction ops arbitrary: c refs c')
  case Nil
  then show ?case by simp
next
  case (Cons a ops)
  obtain r1 c1 where g: "getter a c = (r1, c1)" by (cases "getter a c")
  obtain rs c2 where rd: "reads ops c1 = (rs, c2)" by (cases "reads ops c1")
  from Cons.prems(1) g rd have c2: "c' = c2" by simp
  from getter_keeps_field [OF Cons.prems(2), of a] g have "field k c1 = Some r" by simp
  from Cons.IH [OF rd this] c2 show ?case by simp
qed

lemma reads_refs:
  "reads ops c = (refs, c') \<Longrightarrow>
     length refs = length ops \<and> (\<forall>i<length ops. field (ops ! i) c' = Some (refs ! i))"
proof (induction ops arbitrary: c refs c')
  case Nil
  then show ?case by auto
next
  case (Cons a ops)
  obtain r1 c1 where g: "getter a c = (r1, c1)" by (cases "getter a c")
  obtain rs c2 where rd: "reads ops c1 = (rs, c2)" by (cases "reads ops c1")
  from Cons.prems g rd have eq: "refs = r1 # rs" "c' = c2" by simp_all
  from Cons.IH [OF rd] have ih: "length rs = length ops"
    "\<forall>i<length ops. field (ops ! i) c2 = Some (rs ! i)" by simp_all
  from reads_keeps_field [OF rd getter_sets_field [OF g]] have first: "field a c2 = Some r1" .
  show ?case
  proof (intro conjI allI impI)
    show "length refs = length (a # ops)" using eq ih by simp
  next
    fix i assume "i < length (a # ops)"
    then show "field ((a # ops) ! i) c' = Some (refs ! i)"
      using eq ih first by (cases i) auto
  qed
qed

lemma reads_cached: "reads ops c = (refs, c') \<Longrightarrow> \<forall>k. cached c k \<Longrightarrow> \<forall>k. cached c' k"
proof (induction ops arbitrary: c refs c')
  case Nil
  then show ?case by simp
next
  case (Cons a ops)
  obtain r1 c1 where g: "getter a c = (r1, c1)" by (cases "getter a c")
  obtain rs c2 where rd: "reads ops c1 = (rs, c2)" by (cases "reads ops c1")
  from Cons.prems(1) g rd have c2: "c' = c2" by simp
  have "\<forall>k. cached c1 k" using getter_cached [OF Cons.prems(2), of a] g by simp
  from Cons.IH [OF rd this] c2 show ?case by simp
qed

lemma newContainer_cached: "cached newContainer k"
  by (cases k) (simp_all add: cached_def newContainer_def)

lemma cached_count: "cached c k \<Longrightarrow> count_list (heap c) k \<le> 1"
  by (simp add: cached_def split: option.splits)

lemma cached_field_object:
  "cached c k \<Longrightarrow> field k c = Some r \<Longrightarrow> r < length (heap c) \<and> heap c ! r = k"
  by (simp add: cached_def)

text \<open>
  Claim C10. In any state of a container, reading an accessor again returns the same
  reference and changes nothing; in a state that satisfies the invariant of the cache,
  the reference returned is that of an object of the accessor's class on the heap. Over
  any sequence of reads that starts at a new container, every read returns the
  reference of an object of its accessor's class, two reads of the same accessor return
  the same reference, and no class of sub-resource is constructed more than once.
\<close>

theorem container_accessors_cached:
  "(getter a c = (r, c') \<longrightarrow> getter a c' = (r, c') \<and> field a c' = Some r)
   \<and> (getter a c = (r, c') \<and> (\<forall>k. cached c k) \<longrightarrow>
        r < length (heap c') \<and> heap c' ! r = a \<and> (\<forall>k. cached c' k))
   \<and> (reads ops newContainer = (refs, c'') \<longrightarrow>
        length refs = length ops
        \<and> (\<forall>i<length ops. refs ! i < length (heap c'') \<and> heap c'' ! (refs ! i) = ops ! i)
        \<and> (\<forall>i<length ops. \<forall>j<length ops. ops ! i = ops ! j \<longrightarrow> refs ! i = refs ! j)
        \<and> (\<forall>k. count_list (heap c'') k \<le> 1))"
proof (intro conjI impI)
  assume "getter a c = (r, c')"
  then show "getter a c' = (r, c')" by (rule getter_again)
next
  assume "getter a c = (r, c')"
  then show "field a c' = Some r" by (rule getter_sets_field)
next
  assume h: "getter a c = (r, c') \<and> (\<forall>k. cached c k)"
  then have inv: "\<forall>k. cached c' k" using getter_cached [of c a] by (metis snd_conv)
  from h have g: "getter a c = (r, c')" by simp
  have "field a c' = Some r" by (rule getter_sets_field [OF g])
  with inv have "r < length (heap c') \<and> heap c' ! r = a" by (simp add: cached_field_object)
  then show "r < length (heap c')" and "heap c' ! r = a" by simp_all
  from inv show "\<forall>k. cached c' k" .
next
  assume rd: "reads ops newContainer = (refs, c'')"
  from reads_refs [OF rd] show "length refs = length ops" by simp
next
  assume rd: "reads ops newContainer = (refs, c'')"
  have inv: "\<forall>k. cached c'' k"
    using reads_cached [OF rd] newContainer_cached by blast
  show "\<forall>i<length ops. refs ! i < length (heap c'') \<and> heap c'' ! (refs ! i) = ops ! i"
  proof (intro allI impI)
    fix i assume "i < length ops"
    with reads_refs [OF rd] have "field (ops ! i) c'' = Some (refs ! i)" by simp
    with inv show "refs ! i < length (heap c'') \<and> heap c'' ! (refs ! i) = ops ! i"
      by (simp add: cached_field_object)
  qed
next
  assume rd: "reads ops newContainer = (refs, c'')"
  show "\<forall>i<length ops. \<forall>j<length ops. ops ! i = ops ! j \<longrightarrow> refs ! i = refs ! j"
  proof (intro allI impI)
    fix i j assume "i < length ops" "j < length ops" "ops ! i = ops ! j"
    with reads_refs [OF rd] have "Some (refs ! i) = Some (refs ! j)" by metis
    then show "refs ! i = refs ! j" by simp
  qed
next
  assume rd: "reads ops newContainer = (refs, c'')"
  have "\<forall>k. cached c'' k"
    using reads_cached [OF rd] newContainer_cached by blast
  then show "\<forall>k. count_list (heap c'') k \<le> 1" using cached_count by blast
qed

theorem container_accessors_cached_witness:
  "items (snd (items newContainer)) = (0, snd (items newContainer))
   \<and> fst (reads [Items, Conflicts, Items, StoredProcedures, Conflicts, Items] newContainer)
       = [0, 1, 0, 2, 1, 0]
   \<and> heap (snd (reads [Items, Conflicts, Items, StoredProcedures, Conflicts, Items]
         newContainer)) = [Items, Conflicts, StoredProcedures]
   \<and> heap (snd (reads [Items, Conflicts, Items, StoredProcedures, Conflicts, Items]
         newContainer)) ! 2 = StoredProcedures
   \<and> count_list (heap (snd (reads [Items, Conflicts, Items, StoredProcedures, Conflicts, Items]
         newContainer))) Items \<le> 1"
proof -
  have g: "getter Items newContainer = (0, snd (items newContainer))"
    by (simp add: items_def newContainer_def)
  have rd: "reads [Items, Conflicts, Items, StoredProcedures, Conflicts, Items] newContainer
        = ([0, 1, 0, 2, 1, 0],
           snd (reads [Items, Conflicts, Items, StoredProcedures, Conflicts, Items] newContainer))"
    by (simp add: items_def conflicts_def storedProcedures_def newContainer_def)
  have hp: "heap (snd (reads [Items, Conflicts, Items, StoredProcedures, Conflicts, Items]
         newContainer)) = [Items, Conflicts, StoredProcedures]"
    by (simp add: items_def conflicts_def storedProcedures_def newContainer_def)
  note th = container_accessors_cached [of Items newContainer 0 "snd (items newContainer)"
      "[Items, Conflicts, Items, StoredProcedures, Conflicts, Items]" "[0, 1, 0, 2, 1, 0]"
      "snd (reads [Items, Conflicts, Items, StoredProcedures, Conflicts, Items] newContainer)"]
  from th g have a: "getter Items (snd (items newContainer)) = (0, snd (items newContainer))"
    by blast
  from th rd have c: "\<forall>k. count_list (heap (snd (reads
      [Items, Conflicts, Items, StoredProcedures, Conflicts, Items] newContainer))) k \<le> 1"
    by blast
  from th rd have o: "\<forall>i<length [Items, Conflicts, Items, StoredProcedures, Conflicts, Items].
      heap (snd (reads [Items, Conflicts, Items, StoredProcedures, Conflicts, Items]
        newContainer)) ! ([0, 1, 0, 2, 1, 0] ! i)
      = [Items, Conflicts, Items, StoredProcedures, Conflicts, Items] ! i"
    by blast
  have o3: "heap (snd (reads [Items, Conflicts, Items, StoredProcedures, Conflicts, Items]
        newContainer)) ! 2 = StoredProcedures"
    using o [rule_format, of 3] by simp
  from rd have f: "fst (reads [Items, Conflicts, Items, StoredProcedures, Conflicts, Items]
      newContainer) = [0, 1, 0, 2, 1, 0]"
    by (metis fst_conv)
  from a c f hp o3 show ?thesis by (simp del: reads.simps)
qed


end
